theory Spec2Isabelle
  imports Main "HOL-Library.Word" "HOL-Library.Stream"
begin

unbundle bit_operations_syntax

section \<open>JavaScript values used by the session engine\<close>

text \<open>
  An element of a \<^verbatim>\<open>Uint8Array\<close> is a byte.  A JavaScript string is a sequence of
  UTF-16 code units: \<^verbatim>\<open>name.length\<close> counts them and \<^verbatim>\<open>charCodeAt(0)\<close> of a
  one-unit string reads one.
\<close>

type_synonym byte = "8 word"
type_synonym jsstring = "16 word list"

definition js_str :: "string \<Rightarrow> jsstring" where
  "js_str s = map of_char s"

text \<open>\<^verbatim>\<open>data[i]\<close> on a typed array: \<^verbatim>\<open>undefined\<close> (here \<open>None\<close>) out of range.\<close>

definition at :: "'a list \<Rightarrow> nat \<Rightarrow> 'a option" where
  "at xs i = (if i < length xs then Some (xs ! i) else None)"

text \<open>\<^verbatim>\<open>data.slice(a, b)\<close> for \<open>0 \<le> a \<le> b\<close>: both ends are clamped to the length.\<close>

definition slice_array :: "'a list \<Rightarrow> nat \<Rightarrow> nat \<Rightarrow> 'a list" where
  "slice_array xs a b = take (b - a) (drop a xs)"

text \<open>
  Storing a number into a \<^verbatim>\<open>Uint8Array\<close> keeps its low eight bits, and
  \<^verbatim>\<open>undefined\<close> is stored as 0.
\<close>

definition toUint8 :: "byte option \<Rightarrow> byte" where
  "toUint8 v = (case v of None \<Rightarrow> 0 | Some b \<Rightarrow> b)"

text \<open>
  The operands of \<^verbatim>\<open>|\<close> and \<^verbatim>\<open><<\<close> are converted to 32-bit integers
  (\<^verbatim>\<open>undefined\<close> to 0) and the result is read as a signed 32-bit integer.
\<close>

definition toInt32 :: "byte option \<Rightarrow> 32 word" where
  "toInt32 v = (case v of None \<Rightarrow> 0 | Some b \<Rightarrow> ucast b)"

definition int32le :: "byte list \<Rightarrow> nat \<Rightarrow> int" where
  "int32le data i =
     sint (toInt32 (at data i)
        OR push_bit 8 (toInt32 (at data (i + 1)))
        OR push_bit 16 (toInt32 (at data (i + 2)))
        OR push_bit 24 (toInt32 (at data (i + 3))))"

text \<open>
  \<^verbatim>\<open>String.fromCharCode(...bytes).replace(/\u0000/g, "")\<close>: one code unit per byte,
  then every NUL removed.
\<close>

definition fromCharCodes :: "byte list \<Rightarrow> jsstring" where
  "fromCharCodes bs = filter (\<lambda>c. c \<noteq> 0) (map ucast bs)"

text \<open>
  \<^verbatim>\<open>name.toLowerCase().endsWith(".rxe")\<close>.  The only code points whose lower-case
  mapping ends in one of \<^verbatim>\<open>. r x e\<close> are those characters and \<^verbatim>\<open>R X E\<close>, so
  the test looks at the last four code units.
\<close>

definition endsWithRxe :: "jsstring \<Rightarrow> bool" where
  "endsWithRxe n =
     (4 \<le> length n \<and>
      (let t = drop (length n - 4) n in
         t ! 0 = 0x2e \<and> (t ! 1 = 0x72 \<or> t ! 1 = 0x52) \<and>
         (t ! 2 = 0x78 \<or> t ! 2 = 0x58) \<and> (t ! 3 = 0x65 \<or> t ! 3 = 0x45)))"

section \<open>Errors\<close>

text \<open>
  One constructor per \<^verbatim>\<open>throw\<close> of the source, named after its message; the
  status byte quoted in a message is kept.  \<open>TransportError\<close> is whatever the transport
  throws; \<open>TypeError\<close> and \<open>RangeError\<close> are raised by the language itself (a property
  read on \<^verbatim>\<open>undefined\<close>, \<^verbatim>\<open>TypedArray.set\<close> with a source longer than the target).
\<close>

datatype error =
    NoDeviceConnected
  | TransportError
  | NameTooLong
  | SetBrickNameFailed "byte option"
  | FilesizeTooLong
  | OpenLinearWriteFailed "byte option"
  | DataTooLong
  | WriteFailed "byte option"
  | NoFileSelected
  | CannotVerifyFirmware
  | UploadFailed "byte option"
  | InvalidFileExtension
  | InvalidFileFormat
  | StopProgramFailed "byte option"
  | CloseHandleFailed "byte option"
  | DeleteFileFailed "byte option"
  | TypeError
  | RangeError

text \<open>
  \<^verbatim>\<open>error.statusCode\<close>: only \<^verbatim>\<open>stopProgram\<close> and \<^verbatim>\<open>deleteFile\<close> attach it; on every
  other error the property is \<^verbatim>\<open>undefined\<close>.
\<close>

fun statusCode :: "error \<Rightarrow> byte option" where
  "statusCode (StopProgramFailed c) = c"
| "statusCode (DeleteFileFailed c) = c"
| "statusCode _ = None"

section \<open>The transport and the session object\<close>

text \<open>
  The transport (\<^verbatim>\<open>NxtCommunication\<close>) is an external object.  Its behaviour during a
  run is given by the outcome of each successive call: \<open>sendOutcomes\<close> says whether the
  next \<^verbatim>\<open>sendCommand\<close> resolves, \<open>replies\<close> what the next \<^verbatim>\<open>receiveData\<close> returns
  (\<open>None\<close>: it throws).  \<open>sent\<close> records every buffer passed to \<^verbatim>\<open>sendCommand\<close>,
  oldest first.
\<close>

record transport =
  sent :: "byte list list"
  sendOutcomes :: "bool stream"
  replies :: "byte list option stream"

record nxt =
  connectedDevice :: "transport option"

type_synonym 'a io = "nxt \<Rightarrow> (error + 'a) \<times> nxt"

definition io_return :: "'a \<Rightarrow> 'a io" where
  "io_return x s = (Inr x, s)"

definition io_throw :: "error \<Rightarrow> 'a io" where
  "io_throw e s = (Inl e, s)"

definition io_bind :: "'a io \<Rightarrow> ('a \<Rightarrow> 'b io) \<Rightarrow> 'b io" where
  "io_bind m f s = (case m s of (Inl e, s') \<Rightarrow> (Inl e, s') | (Inr x, s') \<Rightarrow> f x s')"

text \<open>\<^verbatim>\<open>try { m } catch (error) { h error }\<close>: the effects of \<open>m\<close> stay.\<close>

definition io_catch :: "'a io \<Rightarrow> (error \<Rightarrow> 'a io) \<Rightarrow> 'a io" where
  "io_catch m h s = (case m s of (Inl e, s') \<Rightarrow> h e s' | (Inr x, s') \<Rightarrow> (Inr x, s'))"

text \<open>\<^verbatim>\<open>this.connectedDevice.sendCommand(command)\<close>\<close>

definition sendCommand :: "byte list \<Rightarrow> unit io" where
  "sendCommand command s =
     (case connectedDevice s of
        None \<Rightarrow> (Inl TypeError, s)
      | Some t \<Rightarrow>
          (if shd (sendOutcomes t) then Inr () else Inl TransportError,
           s\<lparr>connectedDevice :=
               Some (t\<lparr>sent := sent t @ [command],
                       sendOutcomes := stl (sendOutcomes t)\<rparr>)\<rparr>))"

text \<open>\<^verbatim>\<open>this.connectedDevice.receiveData()\<close>\<close>

definition receiveData :: "byte list io" where
  "receiveData s =
     (case connectedDevice s of
        None \<Rightarrow> (Inl TypeError, s)
      | Some t \<Rightarrow>
          (case shd (replies t) of None \<Rightarrow> Inl TransportError | Some data \<Rightarrow> Inr data,
           s\<lparr>connectedDevice := Some (t\<lparr>replies := stl (replies t)\<rparr>)\<rparr>))"

text \<open>
  \<^verbatim>\<open>const a = new Uint8Array(n); a.set(name.split("").map((char) => char.charCodeAt(0)))\<close>
\<close>

definition nameArray :: "nat \<Rightarrow> jsstring \<Rightarrow> byte list io" where
  "nameArray n name =
     (if n < length name then io_throw RangeError
      else io_return (map ucast name @ replicate (n - length name) 0))"

section \<open>Session engine\<close>

record firmwareVersion =
  minorProtocol :: "byte option"
  majorProtocol :: "byte option"
  minorFirmware :: "byte option"
  majorFirmware :: "byte option"

definition getFirmwareVersion :: "firmwareVersion io" where
  "getFirmwareVersion s =
     (if connectedDevice s = None then io_throw NoDeviceConnected s
      else io_bind (sendCommand [0x01, 0x88]) (\<lambda>_.
           io_bind receiveData (\<lambda>data.
           io_return \<lparr>minorProtocol = at data 3, majorProtocol = at data 4,
                      minorFirmware = at data 5, majorFirmware = at data 6\<rparr>)) s)"

definition checkConnection :: "bool io" where
  "checkConnection =
     io_catch
       (\<lambda>s. if connectedDevice s = None then io_throw NoDeviceConnected s
            else io_bind getFirmwareVersion (\<lambda>_. io_return True) s)
       (\<lambda>e. io_return False)"

record deviceInfo =
  nxtName :: jsstring
  btAddress :: "byte list"
  btSignalStrength :: int
  freeUserFlash :: int

definition getDeviceInfo :: "deviceInfo io" where
  "getDeviceInfo s =
     (if connectedDevice s = None then io_throw NoDeviceConnected s
      else io_bind (sendCommand [0x01, 0x9b]) (\<lambda>_.
           io_bind receiveData (\<lambda>data.
           io_return \<lparr>nxtName = fromCharCodes (slice_array data 3 18),
                      btAddress = slice_array data 18 24,
                      btSignalStrength = int32le data 25,
                      freeUserFlash = int32le data 29\<rparr>)) s)"

definition setBrickName :: "jsstring \<Rightarrow> unit io" where
  "setBrickName name s =
     (if connectedDevice s = None then io_throw NoDeviceConnected s
      else io_bind checkConnection (\<lambda>ok.
           if \<not> ok then io_throw NoDeviceConnected
           else if 15 < length name then io_throw NameTooLong
           else io_bind (nameArray 15 name) (\<lambda>nameArray.
                io_bind (sendCommand ([0x01, 0x98] @ nameArray)) (\<lambda>_.
                io_bind receiveData (\<lambda>data.
                if at data 2 \<noteq> Some 0 then io_throw (SetBrickNameFailed (at data 2))
                else io_return ())))) s)"


definition stopProgram :: "unit io" where
  "stopProgram s =
     (if connectedDevice s = None then io_throw NoDeviceConnected s
      else io_bind checkConnection (\<lambda>ok.
           if \<not> ok then io_throw NoDeviceConnected
           else io_bind (sendCommand [0x00, 0x01]) (\<lambda>_.
                io_bind receiveData (\<lambda>data.
                let status = at data 2 in
                if status \<noteq> Some 0 then io_throw (StopProgramFailed status)
                else io_return ()))) s)"

definition deleteFile :: "jsstring \<Rightarrow> unit io" where
  "deleteFile fileName s =
     (if connectedDevice s = None then io_throw NoDeviceConnected s
      else io_bind checkConnection (\<lambda>ok.
           if \<not> ok then io_throw NoDeviceConnected
           else io_bind (nameArray 20 fileName) (\<lambda>fileNameArray.
                io_bind (sendCommand ([0x01, 0x85] @ fileNameArray)) (\<lambda>_.
                io_bind receiveData (\<lambda>data.
                if at data 2 \<noteq> Some 0 then io_throw (DeleteFileFailed (at data 2))
                else io_return ())))) s)"

section \<open>File transfer\<close>

text \<open>
  \<^verbatim>\<open>_openLinearWrite(name, size)\<close>.  The four size bytes are
  \<^verbatim>\<open>size & 0xff\<close>, \<^verbatim>\<open>(size >> 8) & 0xff\<close>, ...: the bytes of the 32-bit value of \<open>size\<close>.
  The returned handle is \<^verbatim>\<open>data[3]\<close>.
\<close>

definition sizeArray :: "int \<Rightarrow> byte list" where
  "sizeArray sz =
     (let w = (word_of_int sz :: 32 word) in
        [ucast (w AND 0xff), ucast (drop_bit 8 w AND 0xff),
         ucast (drop_bit 16 w AND 0xff), ucast (drop_bit 24 w AND 0xff)])"

definition openLinearWrite :: "jsstring \<Rightarrow> int \<Rightarrow> (byte option) io" where
  "openLinearWrite name sz =
     (if 20 < length name then io_throw FilesizeTooLong
      else io_bind (nameArray 20 name) (\<lambda>nameArray.
           io_bind (sendCommand ([0x01, 0x89] @ nameArray @ sizeArray sz)) (\<lambda>_.
           io_bind receiveData (\<lambda>data.
           if at data 2 \<noteq> Some 0 then io_throw (OpenLinearWriteFailed (at data 2))
           else io_return (at data 3)))))"

text \<open>
  \<^verbatim>\<open>_write(handle, data, requireResponse)\<close> returns the response when one was
  required and \<^verbatim>\<open>undefined\<close> otherwise.
\<close>

definition write' :: "byte option \<Rightarrow> byte list \<Rightarrow> bool \<Rightarrow> (byte list option) io" where
  "write' handle data requireResponse =
     (if 64 - 3 < length data then io_throw DataTooLong
      else io_bind (sendCommand
                      ([if requireResponse then 0x01 else 0x81, 0x83, toUint8 handle] @ data))
           (\<lambda>_.
           if requireResponse then
             io_bind receiveData (\<lambda>response.
             if at response 2 \<noteq> Some 0 then io_throw (WriteFailed (at response 2))
             else io_return (Some response))
           else io_return None))"

abbreviation packetChunkSize :: nat where
  "packetChunkSize \<equiv> 64"

text \<open>
  The \<^verbatim>\<open>for\<close> loop of \<^verbatim>\<open>uploadFile\<close>, from index \<open>i\<close>, with the current value of
  \<^verbatim>\<open>response\<close>.
\<close>

function writeLoop ::
  "byte option \<Rightarrow> byte list \<Rightarrow> nat \<Rightarrow> byte list option \<Rightarrow> (byte list option) io" where
  "writeLoop handle data i response =
     (if i < length data then
        (let chunk = slice_array data i (i + packetChunkSize - 3);
             isLastChunk = (i + packetChunkSize - 3 \<ge> length data)
         in io_bind (write' handle chunk isLastChunk)
                    (\<lambda>response'. writeLoop handle data (i + packetChunkSize - 3) response'))
      else io_return response)"
  by pat_completeness auto
termination
  by (relation "measure (\<lambda>(handle, data, i, response). length data - i)") auto

declare writeLoop.simps [simp del]

text \<open>
  The slicing of that loop on its own: the chunk and the \<^verbatim>\<open>isLastChunk\<close> flag of every
  iteration from index \<open>i\<close> on.
\<close>

function chunks :: "byte list \<Rightarrow> nat \<Rightarrow> (byte list \<times> bool) list" where
  "chunks data i =
     (if i < length data then
        (slice_array data i (i + packetChunkSize - 3), i + packetChunkSize - 3 \<ge> length data)
          # chunks data (i + packetChunkSize - 3)
      else [])"
  by pat_completeness auto
termination
  by (relation "measure (\<lambda>(data, i). length data - i)") auto

declare chunks.simps [simp del]

record File =
  file_name :: jsstring
  file_bytes :: "byte list"

definition uploadFile :: "File option \<Rightarrow> bool \<Rightarrow> unit io" where
  "uploadFile file stop s =
     (if connectedDevice s = None then io_throw NoDeviceConnected s
      else io_bind checkConnection (\<lambda>ok.
           if \<not> ok then io_throw NoDeviceConnected
           else case file of
             None \<Rightarrow> io_throw NoFileSelected
           | Some f \<Rightarrow>
               (let data = file_bytes f in
                io_bind getFirmwareVersion (\<lambda>firmwareVersion.
                if majorFirmware firmwareVersion \<noteq> Some 1 then io_throw CannotVerifyFirmware
                else
                io_bind (if stop
                         then io_catch stopProgram (\<lambda>error.
                                if statusCode error \<noteq> Some 236 then io_throw error
                                else io_return ())
                         else io_return ()) (\<lambda>_.
                io_bind (io_catch (deleteFile (file_name f)) (\<lambda>error.
                           if statusCode error \<noteq> Some 135 then io_throw error
                           else io_return ())) (\<lambda>_.
                io_bind (openLinearWrite (js_str ''Untitled1.rxe'') 244) (\<lambda>handle.
                io_bind (writeLoop handle data 0 None) (\<lambda>response.
                case response of
                  None \<Rightarrow> io_throw TypeError
                | Some r \<Rightarrow>
                    if at r 2 \<noteq> Some 0 then io_throw (UploadFailed (at r 2))
                    else sendCommand [0x01, 0x84, toUint8 handle]))))))) s)"

definition expectedHeader :: "byte list" where
  "expectedHeader =
     [0x4d, 0x69, 0x6e, 0x64, 0x73, 0x74, 0x6f, 0x72, 0x6d, 0x73, 0x4e, 0x58, 0x54]"

text \<open>\<^verbatim>\<open>header.every((value, index) => value === expectedHeader[index])\<close>\<close>

definition headerMatches :: "byte list \<Rightarrow> bool" where
  "headerMatches header =
     list_all (\<lambda>(val, index). Some val = at expectedHeader index)
              (zip header [0 ..< length header])"

definition uploadProgram :: "File option \<Rightarrow> unit io" where
  "uploadProgram file =
     (case file of
        None \<Rightarrow> io_throw NoFileSelected
      | Some f \<Rightarrow>
          if \<not> endsWithRxe (file_name f) then io_throw InvalidFileExtension
          else
            (let headerLength = length expectedHeader;
                 header = slice_array (file_bytes f) 0 headerLength
             in if \<not> headerMatches header then io_throw InvalidFileFormat
                else io_catch (uploadFile file True) (\<lambda>error. io_throw error)))"

section \<open>File enumeration\<close>

record findPacket =
  fp_handle :: "byte option"
  fp_name :: jsstring
  fp_fileSize :: int

definition handleFindReturnPacket :: "byte list \<Rightarrow> findPacket" where
  "handleFindReturnPacket data =
     \<lparr>fp_handle = at data 3,
      fp_name = fromCharCodes (slice_array data 4 23),
      fp_fileSize = int32le data 24\<rparr>"

record fileInfo =
  fi_name :: jsstring
  fi_size :: int

text \<open>
  The \<^verbatim>\<open>while (!lastFile)\<close> loop of \<^verbatim>\<open>listFiles\<close>.  It runs for as long as the
  device answers find-next with status 0, so it need not return: \<open>None\<close> is a run
  that never leaves the loop.
\<close>

partial_function (option) findNextLoop ::
  "byte option \<Rightarrow> fileInfo list \<Rightarrow> nxt \<Rightarrow> ((error + fileInfo list) \<times> nxt) option" where
  "findNextLoop handle files s =
     (case sendCommand [0x01, 0x87, toUint8 handle] s of
        (Inl e, s1) \<Rightarrow> Some (Inl e, s1)
      | (Inr _, s1) \<Rightarrow>
          (case receiveData s1 of
             (Inl e, s2) \<Rightarrow> Some (Inl e, s2)
           | (Inr data, s2) \<Rightarrow>
               if at data 2 = Some 0 then
                 (let fileInfo = handleFindReturnPacket data
                  in findNextLoop handle
                       (files @ [\<lparr>fi_name = fp_name fileInfo, fi_size = fp_fileSize fileInfo\<rparr>])
                       s2)
               else Some (Inr files, s2)))"

definition findFirstPattern :: "byte list" where
  "findFirstPattern =
     [0x2a, 0x2e, 0x2a, 0x00, 0x00, 0x00, 0x00, 0x00, 0x00, 0x00, 0x00, 0x00,
      0x00, 0x00, 0x00, 0x00, 0x00, 0x00, 0x00, 0x00]"

definition listFiles :: "nxt \<Rightarrow> ((error + fileInfo list) \<times> nxt) option" where
  "listFiles s =
     (if connectedDevice s = None then Some (Inl NoDeviceConnected, s)
      else case checkConnection s of
        (Inl e, s1) \<Rightarrow> Some (Inl e, s1)
      | (Inr ok, s1) \<Rightarrow>
          if \<not> ok then Some (Inl NoDeviceConnected, s1)
          else case io_bind (sendCommand ([0x01, 0x86] @ findFirstPattern))
                            (\<lambda>_. receiveData) s1 of
            (Inl e, s2) \<Rightarrow> Some (Inl e, s2)
          | (Inr data, s2) \<Rightarrow>
              (let fileInfo = handleFindReturnPacket data;
                   handle = fp_handle fileInfo;
                   files = [\<lparr>fi_name = fp_name fileInfo, fi_size = fp_fileSize fileInfo\<rparr>]
               in case findNextLoop handle files s2 of
                    None \<Rightarrow> None
                  | Some (Inl e, s3) \<Rightarrow> Some (Inl e, s3)
                  | Some (Inr files', s3) \<Rightarrow>
                      Some (io_bind (sendCommand [0x01, 0x84, toUint8 handle]) (\<lambda>_.
                            io_bind receiveData (\<lambda>data'.
                            if at data' 2 \<noteq> Some 0
                            then io_throw (CloseHandleFailed (at data' 2))
                            else io_return files')) s3)))"


section \<open>Reading a run\<close>

text \<open>A session with a connected transport, by the three fields of the transport.\<close>

abbreviation brick ::
  "byte list list \<Rightarrow> bool stream \<Rightarrow> byte list option stream \<Rightarrow> nxt" where
  "brick L so rs \<equiv> \<lparr>connectedDevice = Some \<lparr>sent = L, sendOutcomes = so, replies = rs\<rparr>\<rparr>"

abbreviation unconnected :: nxt where
  "unconnected \<equiv> \<lparr>connectedDevice = None\<rparr>"

text \<open>
  The buffers passed to \<^verbatim>\<open>sendCommand\<close> so far, and those passed between an earlier
  state and a later one.
\<close>

definition sentLog :: "nxt \<Rightarrow> byte list list" where
  "sentLog s = (case connectedDevice s of None \<Rightarrow> [] | Some t \<Rightarrow> sent t)"

definition newCommands :: "nxt \<Rightarrow> nxt \<Rightarrow> byte list list" where
  "newCommands s s' = drop (length (sentLog s)) (sentLog s')"

text \<open>
  \<open>appends P m\<close>: from any state, \<open>m\<close> only adds buffers to the log, and each buffer it
  adds satisfies \<open>P\<close>.
\<close>

definition appends :: "(byte list \<Rightarrow> bool) \<Rightarrow> 'a io \<Rightarrow> bool" where
  "appends P m = (\<forall>s. \<exists>ext. sentLog (snd (m s)) = sentLog s @ ext \<and> list_all P ext)"

text \<open>The entry \<^verbatim>\<open>{ name: fileInfo.name, size: fileInfo.fileSize }\<close> pushed for a packet.\<close>

abbreviation entryOf :: "byte list \<Rightarrow> fileInfo" where
  "entryOf d \<equiv> \<lparr>fi_name = fp_name (handleFindReturnPacket d),
                 fi_size = fp_fileSize (handleFindReturnPacket d)\<rparr>"

section \<open>Example inputs\<close>

text \<open>
  The firmware-version response \<^verbatim>\<open>02 88 00 04 01 1F 01\<close> padded to 64 bytes, a
  64-byte response that carries only a status and a handle, and a transport on which
  every send resolves and every receive returns the firmware version.
\<close>

definition firmwareReply :: "byte list" where
  "firmwareReply = [0x02, 0x88, 0x00, 0x04, 0x01, 0x1F, 0x01] @ replicate 57 0"

definition statusReply :: "byte \<Rightarrow> byte \<Rightarrow> byte \<Rightarrow> byte list" where
  "statusReply opcode status h = [0x02, opcode, status, h] @ replicate 60 0"

definition probeOnly :: nxt where
  "probeOnly = brick [] (sconst True) (sconst (Some firmwareReply))"

definition name16 :: jsstring where
  "name16 = js_str ''ABCDEFGHIJKLMNOP''"

text \<open>Responses with status \<^verbatim>\<open>0x93\<close> and \<^verbatim>\<open>0x87\<close> and an otherwise plausible payload.\<close>

definition firmwareErrorReply :: "byte list" where
  "firmwareErrorReply = [0x02, 0x88, 0x93, 0x04, 0x01, 0x1F, 0x01] @ replicate 57 0"

definition deviceInfoErrorReply :: "byte list" where
  "deviceInfoErrorReply =
     [0x02, 0x9b, 0x93] @ [0x52, 0x6f, 0x62, 0x6f, 0x74] @ replicate 10 0 @
     [0x00, 0x16, 0x53, 0xAA, 0xBB, 0xCC] @ [0x00] @ [0x0A, 0, 0, 0] @ [0x00, 0x40, 0, 0] @
     replicate 31 0"

definition findFirstErrorReply :: "byte list" where
  "findFirstErrorReply =
     [0x02, 0x86, 0x87, 0x07] @ map of_char ''GHOST.rxe'' @ replicate 11 0 @
     [0x01, 0x02, 0, 0] @ replicate 36 0"

text \<open>Find responses with status 0: a 20-character name, and two short names.\<close>

definition longNamePacket :: "byte list" where
  "longNamePacket =
     [0x02, 0x86, 0x00, 0x05] @ map of_char ''ABCDEFGHIJKLMNOPQRST'' @
     [0x10, 0x27, 0, 0] @ replicate 36 0"

definition packetA :: "byte list" where
  "packetA =
     [0x02, 0x86, 0x00, 0x07] @ map of_char ''A.rxe'' @ replicate 15 0 @
     [0x64, 0, 0, 0] @ replicate 36 0"

definition packetB :: "byte list" where
  "packetB =
     [0x02, 0x87, 0x00, 0x07] @ map of_char ''B.rxe'' @ replicate 15 0 @
     [0x00, 0x01, 0, 0] @ replicate 36 0"

text \<open>
  Two files named like a program: one holds the first four bytes of the magic sequence,
  one is empty.  \<open>uploadBrick\<close> answers an upload: no program was running (236), the
  file did not exist (135), the open returns handle 3, the last write succeeds.
\<close>

definition mindFile :: File where
  "mindFile = \<lparr>file_name = js_str ''a.rxe'', file_bytes = [0x4d, 0x69, 0x6e, 0x64]\<rparr>"

definition emptyFile :: File where
  "emptyFile = \<lparr>file_name = js_str ''empty.rxe'', file_bytes = []\<rparr>"

definition uploadBrick :: nxt where
  "uploadBrick =
     brick []
       (True ## True ## True ## True ## True ## True ## True ## True ## True ## sconst False)
       (Some firmwareReply ## Some firmwareReply ##
        Some firmwareReply ## Some (statusReply 0x01 236 0) ##
        Some firmwareReply ## Some (statusReply 0x85 135 0) ##
        Some (statusReply 0x89 0 3) ## Some (statusReply 0x83 0 3) ## sconst None)"

text \<open>Sixty-three bytes of content: one full chunk and a chunk of two bytes.\<close>

definition data63 :: "byte list" where
  "data63 = replicate 61 0xAA @ [0x01, 0x02]"

section \<open>One step of the transport\<close>

lemma nxt_cases:
  obtains "s = unconnected" | L so rs where "s = brick L so rs"
proof (cases s)
  case (fields cd)
  show ?thesis
  proof (cases cd)
    case None
    with fields that show ?thesis by simp
  next
    case (Some t)
    then show ?thesis using fields that by (cases t) simp
  qed
qed

lemma sentLog_brick [simp]: "sentLog (brick L so rs) = L"
  by (simp add: sentLog_def)

lemma sentLog_unconnected [simp]: "sentLog unconnected = []"
  by (simp add: sentLog_def)

lemma at_Cons_1 [simp]: "at (a # b # xs) (Suc 0) = Some b"
  by (simp add: at_def)

lemma sendCommand_brick:
  "sendCommand c (brick L so rs) =
     (if shd so then Inr () else Inl TransportError, brick (L @ [c]) (stl so) rs)"
  by (simp add: sendCommand_def)

lemma receiveData_brick:
  "receiveData (brick L so rs) =
     (case shd rs of None \<Rightarrow> Inl TransportError | Some d \<Rightarrow> Inr d, brick L so (stl rs))"
  by (simp add: receiveData_def)

lemma getFirmwareVersion_brick:
  "getFirmwareVersion (brick L so rs) =
     (if shd so then
        (case shd rs of
           None \<Rightarrow> Inl TransportError
         | Some data \<Rightarrow> Inr \<lparr>minorProtocol = at data 3, majorProtocol = at data 4,
                      minorFirmware = at data 5, majorFirmware = at data 6\<rparr>,
         brick (L @ [[0x01, 0x88]]) (stl so) (stl rs))
      else (Inl TransportError, brick (L @ [[0x01, 0x88]]) (stl so) rs))"
  by (simp add: getFirmwareVersion_def io_bind_def io_return_def sendCommand_brick
      receiveData_brick split: option.split)

text \<open>
  The liveness probe always sends the firmware-version command on a connected
  transport, and reads one response when the send resolved.
\<close>

lemma checkConnection_brick:
  "checkConnection (brick L so rs) =
     (Inr (shd so \<and> shd rs \<noteq> None),
      brick (L @ [[0x01, 0x88]]) (stl so) (if shd so then stl rs else rs))"
  by (simp add: checkConnection_def io_catch_def io_bind_def io_return_def
      getFirmwareVersion_brick split: option.split)

text \<open>The operations on a transport that answers: every send resolves, every receive returns.\<close>

lemma stopProgram_brick:
  "stopProgram (brick L (True ## True ## so) (Some p ## Some d ## rs)) =
     (if at d 2 \<noteq> Some 0 then Inl (StopProgramFailed (at d 2)) else Inr (),
      brick (L @ [[0x01, 0x88], [0x00, 0x01]]) so rs)"
  by (simp add: stopProgram_def io_bind_def io_throw_def io_return_def checkConnection_brick
      sendCommand_brick receiveData_brick)

lemma deleteFile_brick:
  "length n \<le> 20 \<Longrightarrow>
   deleteFile n (brick L (True ## True ## so) (Some p ## Some d ## rs)) =
     (if at d 2 \<noteq> Some 0 then Inl (DeleteFileFailed (at d 2)) else Inr (),
      brick (L @ [[0x01, 0x88], [0x01, 0x85] @ map ucast n @ replicate (20 - length n) 0]) so rs)"
  by (simp add: deleteFile_def io_bind_def io_throw_def io_return_def checkConnection_brick
      nameArray_def sendCommand_brick receiveData_brick)

lemma openLinearWrite_brick:
  "length n \<le> 20 \<Longrightarrow>
   openLinearWrite n sz (brick L (True ## so) (Some d ## rs)) =
     (if at d 2 \<noteq> Some 0 then Inl (OpenLinearWriteFailed (at d 2)) else Inr (at d 3),
      brick (L @ [[0x01, 0x89] @ map ucast n @ replicate (20 - length n) 0 @ sizeArray sz])
        so rs)"
  by (simp add: openLinearWrite_def io_bind_def io_throw_def io_return_def
      nameArray_def sendCommand_brick receiveData_brick)

lemma write_response_brick:
  "length c \<le> 61 \<Longrightarrow>
   write' h c True (brick L (True ## so) (Some d ## rs)) =
     (if at d 2 \<noteq> Some 0 then Inl (WriteFailed (at d 2)) else Inr (Some d),
      brick (L @ [[0x01, 0x83, toUint8 h] @ c]) so rs)"
  by (simp add: write'_def io_bind_def io_throw_def io_return_def
      sendCommand_brick receiveData_brick)

lemma write_no_response_brick:
  "length c \<le> 61 \<Longrightarrow>
   write' h c False (brick L (True ## so) rs) =
     (Inr None, brick (L @ [[0x81, 0x83, toUint8 h] @ c]) so rs)"
  by (simp add: write'_def io_bind_def io_throw_def io_return_def sendCommand_brick)

lemma writeLoop_Nil: "writeLoop h [] i r = io_return r"
  by (simp add: writeLoop.simps)

lemma io_return_bind: "io_bind (io_return x) f = f x"
  by (rule ext) (simp add: io_bind_def io_return_def)

lemma io_bindE_Inr:
  assumes "io_bind m f s = (Inr y, s')"
  obtains x s1 where "m s = (Inr x, s1)" and "f x s1 = (Inr y, s')"
  using assms by (auto simp: io_bind_def split: prod.splits sum.splits)

subsection \<open>The example inputs, decoded\<close>

lemma at_statusReply [simp]:
  "at (statusReply opc st h) 2 = Some st" "at (statusReply opc st h) 3 = Some h"
  "length (statusReply opc st h) = 64"
  by (simp_all add: statusReply_def at_def)

lemma firmwareReply_major [simp]: "at firmwareReply 6 = Some 1"
  by code_simp

lemma sizeArray_244: "sizeArray 244 = [244, 0, 0, 0]"
  by code_simp

lemma firmwareErrorReply_fields:
  "length firmwareErrorReply = 64" "at firmwareErrorReply 2 = Some 0x93"
  "at firmwareErrorReply 3 = Some 4" "at firmwareErrorReply 4 = Some 1"
  "at firmwareErrorReply 5 = Some 31" "at firmwareErrorReply 6 = Some 1"
  by code_simp+

lemma deviceInfoErrorReply_fields:
  "length deviceInfoErrorReply = 64" "at deviceInfoErrorReply 2 = Some 0x93"
  "fromCharCodes (slice_array deviceInfoErrorReply 3 18) = js_str ''Robot''"
  "slice_array deviceInfoErrorReply 18 24 = [0, 22, 83, 170, 187, 204]"
  "int32le deviceInfoErrorReply 25 = 10"
  "int32le deviceInfoErrorReply 29 = 16384"
  by code_simp+

lemma findFirstErrorReply_fields:
  "length findFirstErrorReply = 64"
  "at findFirstErrorReply 2 = Some 0x87"
  "handleFindReturnPacket findFirstErrorReply =
     \<lparr>fp_handle = Some 7, fp_name = js_str ''GHOST.rxe'', fp_fileSize = 513\<rparr>"
  by code_simp+

lemma packetA_fields:
  "at packetA 2 = Some 0" "at packetA 3 = Some 7"
  "handleFindReturnPacket packetA =
     \<lparr>fp_handle = Some 7, fp_name = js_str ''A.rxe'', fp_fileSize = 100\<rparr>"
  by code_simp+

lemma packetB_fields:
  "at packetB 2 = Some 0"
  "handleFindReturnPacket packetB =
     \<lparr>fp_handle = Some 7, fp_name = js_str ''B.rxe'', fp_fileSize = 256\<rparr>"
  by code_simp+

text \<open>The upload of \<open>mindFile\<close> to \<open>uploadBrick\<close> runs to the end.\<close>

lemma uploadFile_mindFile:
  "uploadFile (Some mindFile) True uploadBrick =
     (Inr (),
      brick [[0x01, 0x88], [0x01, 0x88], [0x01, 0x88], [0x00, 0x01], [0x01, 0x88],
             [0x01, 0x85, 0x61, 0x2e, 0x72, 0x78, 0x65,
              0, 0, 0, 0, 0, 0, 0, 0, 0, 0, 0, 0, 0, 0, 0],
             [0x01, 0x89, 0x55, 0x6e, 0x74, 0x69, 0x74, 0x6c, 0x65, 0x64, 0x31, 0x2e, 0x72, 0x78,
              0x65, 0, 0, 0, 0, 0, 0, 0, 244, 0, 0, 0],
             [0x01, 0x83, 3, 0x4d, 0x69, 0x6e, 0x64],
             [0x01, 0x84, 3]]
        (sconst False) (sconst None))"
proof -
  have r: "replicate 15 (0::byte) = [0, 0, 0, 0, 0, 0, 0, 0, 0, 0, 0, 0, 0, 0, 0]"
    "replicate 7 (0::byte) = [0, 0, 0, 0, 0, 0, 0]" by code_simp+
  show ?thesis
    by (simp add: uploadFile_def uploadBrick_def mindFile_def io_bind_def io_catch_def
        io_throw_def io_return_def checkConnection_brick getFirmwareVersion_brick
        stopProgram_brick deleteFile_brick openLinearWrite_brick write_response_brick
        writeLoop.simps sendCommand_brick js_str_def slice_array_def toUint8_def
        sizeArray_244 r)
qed

section \<open>Renaming the brick\<close>

text \<open>
  C1, as the code has it.  For a name longer than 15 characters \<open>setBrickName\<close> never
  sends the rename command and always fails, but the length is checked after the
  liveness probe: on a connected transport exactly one buffer, the firmware-version
  command \<^verbatim>\<open>01 88\<close>, is passed to \<open>sendCommand\<close>; the error is the name-too-long error
  when the probe is answered and the no-device error when it is not.  Without a
  transport the call fails with the no-device error and sends nothing.
\<close>

theorem setBrickName_too_long:
  "15 < length name \<Longrightarrow>
     setBrickName name unconnected = (Inl NoDeviceConnected, unconnected) \<and>
     setBrickName name (brick L so rs) =
       (if shd so \<and> shd rs \<noteq> None then Inl NameTooLong else Inl NoDeviceConnected,
        brick (L @ [[0x01, 0x88]]) (stl so) (if shd so then stl rs else rs))"
  by (simp add: setBrickName_def io_bind_def io_throw_def checkConnection_brick)

theorem setBrickName_too_long_witness:
  "15 < length (js_str ''a name of twenty ch'' @ [0x21]) \<and>
   setBrickName (js_str ''a name of twenty ch'' @ [0x21])
       (brick [] (True ## sconst False) (Some firmwareReply ## sconst None)) =
     (Inl NameTooLong, brick [[0x01, 0x88]] (sconst False) (sconst None))"
  using setBrickName_too_long
    [of "js_str ''a name of twenty ch'' @ [0x21]" "[]" "True ## sconst False"
        "Some firmwareReply ## sconst None"]
  by (simp add: js_str_def)

text \<open>
  C1 as stated fails: with a 16-character name on a live transport the call ends in the
  name-too-long error, and the probe has been sent.
\<close>

theorem setBrickName_probe_counterexample:
  "15 < length name16 \<and>
   setBrickName name16 probeOnly = (Inl NameTooLong, brick [[0x01, 0x88]] (sconst True)
                                      (sconst (Some firmwareReply)))"
  by (simp add: name16_def js_str_def probeOnly_def setBrickName_def io_bind_def io_throw_def
      checkConnection_brick)

section \<open>Decoders and the status byte\<close>

text \<open>
  C2, at a failing input.  Both responses are 64 bytes long and carry status \<^verbatim>\<open>0x93\<close>;
  \<open>getFirmwareVersion\<close> and \<open>getDeviceInfo\<close> return their payload bytes as a firmware
  version and as device information.
\<close>

theorem decoders_ignore_status:
  "length firmwareErrorReply = 64 \<and> at firmwareErrorReply 2 = Some 0x93 \<and>
   getFirmwareVersion (brick [] (True ## so) (Some firmwareErrorReply ## rs)) =
     (Inr \<lparr>minorProtocol = Some 4, majorProtocol = Some 1,
            minorFirmware = Some 31, majorFirmware = Some 1\<rparr>,
      brick [[0x01, 0x88]] so rs) \<and>
   length deviceInfoErrorReply = 64 \<and> at deviceInfoErrorReply 2 = Some 0x93 \<and>
   getDeviceInfo (brick [] (True ## so) (Some deviceInfoErrorReply ## rs)) =
     (Inr \<lparr>nxtName = js_str ''Robot'', btAddress = [0, 22, 83, 170, 187, 204],
            btSignalStrength = 10, freeUserFlash = 16384\<rparr>,
      brick [[0x01, 0x9b]] so rs)"
  by (simp add: getFirmwareVersion_brick firmwareErrorReply_fields
      deviceInfoErrorReply_fields getDeviceInfo_def io_bind_def io_return_def
      sendCommand_brick receiveData_brick)

section \<open>File enumeration\<close>

text \<open>
  C8, at a failing input.  The packet is 64 bytes long with status 0 and the 20-character
  name \<^verbatim>\<open>ABCDEFGHIJKLMNOPQRST\<close> in offsets 4 to 23.  \<open>handleFindReturnPacket\<close>
  reads offsets 4 to 22 and returns the first 19 characters; the size is the
  little-endian value of offsets 24 to 27.
\<close>

theorem handleFindReturnPacket_drops_offset_23:
  "length longNamePacket = 64 \<and> at longNamePacket 2 = Some 0 \<and>
   fromCharCodes (slice_array longNamePacket 4 24) = js_str ''ABCDEFGHIJKLMNOPQRST'' \<and>
   handleFindReturnPacket longNamePacket =
     \<lparr>fp_handle = Some 5, fp_name = js_str ''ABCDEFGHIJKLMNOPQRS'', fp_fileSize = 10000\<rparr>"
  by code_simp

text \<open>One round of the find-next loop on a transport that answers.\<close>

lemma findNextLoop_more:
  "at d 2 = Some 0 \<Longrightarrow>
   findNextLoop h files (brick L (True ## so) (Some d ## rs)) =
   findNextLoop h (files @ [entryOf d]) (brick (L @ [[0x01, 0x87, toUint8 h]]) so rs)"
  by (subst findNextLoop.simps) (simp add: sendCommand_brick receiveData_brick Let_def)

lemma findNextLoop_last:
  "at d 2 \<noteq> Some 0 \<Longrightarrow>
   findNextLoop h files (brick L (True ## so) (Some d ## rs)) =
   Some (Inr files, brick (L @ [[0x01, 0x87, toUint8 h]]) so rs)"
  by (subst findNextLoop.simps) (simp add: sendCommand_brick receiveData_brick)

text \<open>
  The loop leaves at the first response whose status is not 0, with one entry for every
  response before it, in order.
\<close>

lemma findNextLoop_run:
  "\<forall>d \<in> set ds. at d 2 = Some 0 \<Longrightarrow> at dl 2 \<noteq> Some 0 \<Longrightarrow>
   findNextLoop h files
     (brick L (replicate (Suc (length ds)) True @- so) (map Some ds @- Some dl ## rs)) =
   Some (Inr (files @ map entryOf ds),
         brick (L @ replicate (Suc (length ds)) [0x01, 0x87, toUint8 h]) so rs)"
proof (induction ds arbitrary: files L)
  case Nil
  then show ?case by (simp add: findNextLoop_last)
next
  case (Cons d ds)
  then show ?case
    by (simp add: findNextLoop_more replicate_append_same)
qed

text \<open>
  C3, at a failing input.  The find-first response is 64 bytes long with status \<^verbatim>\<open>0x87\<close>.
  \<open>listFiles\<close> does not fail: it lists the entry decoded from that response, goes on to
  find-next with the handle read from it, and returns the list.
\<close>

theorem listFiles_findFirst_error_listed:
  "length findFirstErrorReply = 64 \<and> at findFirstErrorReply 2 = Some 0x87 \<and>
   listFiles (brick [] (True ## True ## True ## True ## so)
                (Some firmwareReply ## Some findFirstErrorReply ##
                 Some (statusReply 0x87 0xBD 0) ## Some (statusReply 0x84 0 7) ## rs)) =
     Some (Inr [\<lparr>fi_name = js_str ''GHOST.rxe'', fi_size = 513\<rparr>],
           brick [[0x01, 0x88], [0x01, 0x86] @ findFirstPattern, [0x01, 0x87, 7],
                  [0x01, 0x84, 7]] so rs)"
  by (simp add: listFiles_def checkConnection_brick io_bind_def sendCommand_brick
      receiveData_brick findNextLoop_last io_return_def io_throw_def
      findFirstErrorReply_fields toUint8_def)

text \<open>
  C4.  The transport answers every call; \<open>p\<close> answers the liveness probe, \<open>d0\<close> is the
  find-first response, \<open>ds\<close> are the responses to the first \<open>N - 1\<close> find-next commands,
  all with status 0, \<open>dl\<close> is the response to the \<open>N\<close>-th find-next, with another status,
  and \<open>dc\<close> answers the close.  Then \<open>listFiles\<close> returns: it has sent the probe, find-first,
  \<open>N\<close> find-next commands and one close command, all with the handle of \<open>d0\<close>; the
  result is the \<open>N\<close> entries of \<open>d0\<close> and \<open>ds\<close> in that order when the close status is 0,
  and the close failure with that status otherwise.
\<close>

theorem listFiles_enumerates:
  assumes "1 \<le> N" and "length ds = N - 1"
    and "at d0 2 = Some 0"
    and "\<forall>d \<in> set ds. at d 2 = Some 0"
    and "at dl 2 \<noteq> Some 0"
  shows "listFiles (brick L (True ## True ## (replicate N True @- True ## so))
                     (Some p ## Some d0 ## (map Some ds @- Some dl ## Some dc ## rs))) =
           Some (if at dc 2 = Some 0 then Inr (map entryOf (d0 # ds))
                 else Inl (CloseHandleFailed (at dc 2)),
                 brick (L @ [[0x01, 0x88], [0x01, 0x86] @ findFirstPattern] @
                        replicate N [0x01, 0x87, toUint8 (at d0 3)] @
                        [[0x01, 0x84, toUint8 (at d0 3)]]) so rs)
         \<and> length (map entryOf (d0 # ds)) = N
         \<and> length (filter (\<lambda>c. at c 1 = Some 0x84)
              ([[0x01, 0x88], [0x01, 0x86] @ findFirstPattern] @
               replicate N [0x01, 0x87, toUint8 (at d0 3)] @
               [[0x01, 0x84, toUint8 (at d0 3)]])) = 1"
proof -
  from assms(1,2) have N: "N = Suc (length ds)" by simp
  have loop: "findNextLoop (at d0 3) [entryOf d0]
       (brick (L @ [[0x01, 0x88], [0x01, 0x86] @ findFirstPattern])
          (replicate (Suc (length ds)) True @- True ## so)
          (map Some ds @- Some dl ## Some dc ## rs)) =
     Some (Inr ([entryOf d0] @ map entryOf ds),
           brick ((L @ [[0x01, 0x88], [0x01, 0x86] @ findFirstPattern]) @
                  replicate (Suc (length ds)) [0x01, 0x87, toUint8 (at d0 3)])
             (True ## so) (Some dc ## rs))"
    using assms(4,5) by (rule findNextLoop_run)
  have run: "listFiles (brick L (True ## True ## (replicate N True @- True ## so))
                     (Some p ## Some d0 ## (map Some ds @- Some dl ## Some dc ## rs))) =
           Some (if at dc 2 = Some 0 then Inr (map entryOf (d0 # ds))
                 else Inl (CloseHandleFailed (at dc 2)),
                 brick (L @ [[0x01, 0x88], [0x01, 0x86] @ findFirstPattern] @
                        replicate N [0x01, 0x87, toUint8 (at d0 3)] @
                        [[0x01, 0x84, toUint8 (at d0 3)]]) so rs)"
    unfolding N
    by (simp add: listFiles_def checkConnection_brick io_bind_def sendCommand_brick
        receiveData_brick io_return_def io_throw_def Let_def handleFindReturnPacket_def
        loop [simplified, unfolded handleFindReturnPacket_def, simplified])
  have "length (filter (\<lambda>c. at c 1 = Some 0x84)
              ([[0x01, 0x88], [0x01, 0x86] @ findFirstPattern] @
               replicate N [0x01, 0x87, toUint8 (at d0 3)] @
               [[0x01, 0x84, toUint8 (at d0 3)]])) = 1"
    by simp
  with run N show ?thesis by simp
qed

theorem listFiles_enumerates_witness:
  "listFiles (brick [] (True ## True ## True ## True ## True ## sconst False)
                (Some firmwareReply ## Some packetA ## Some packetB ##
                 Some (statusReply 0x87 0x87 0) ## Some (statusReply 0x84 0 7) ##
                 sconst None)) =
     Some (Inr [\<lparr>fi_name = js_str ''A.rxe'', fi_size = 100\<rparr>,
                \<lparr>fi_name = js_str ''B.rxe'', fi_size = 256\<rparr>],
           brick [[0x01, 0x88], [0x01, 0x86] @ findFirstPattern, [0x01, 0x87, 7],
                  [0x01, 0x87, 7], [0x01, 0x84, 7]] (sconst False) (sconst None))"
  using listFiles_enumerates
    [of "Suc (Suc 0)" "[packetB]" packetA "statusReply 0x87 0x87 0" "[]" "sconst False"
        firmwareReply "statusReply 0x84 0 7" "sconst None"]
  by (simp add: packetA_fields packetB_fields toUint8_def)

section \<open>What an operation sends\<close>

lemma appendsI:
  "(\<And>s. \<exists>ext. sentLog (snd (m s)) = sentLog s @ ext \<and> list_all P ext) \<Longrightarrow> appends P m"
  by (simp add: appends_def)

lemma appendsD:
  "appends P m \<Longrightarrow> \<exists>ext. sentLog (snd (m s)) = sentLog s @ ext \<and> list_all P ext"
  by (simp add: appends_def)

lemma appends_step:
  "appends P m \<Longrightarrow> m s = (r, s') \<Longrightarrow> \<exists>ext. sentLog s' = sentLog s @ ext \<and> list_all P ext"
  using appendsD [of P m s] by simp

lemma appends_return: "appends P (io_return x)"
  by (simp add: appends_def io_return_def)

lemma appends_throw: "appends P (io_throw e)"
  by (simp add: appends_def io_throw_def)

lemma appends_bind:
  assumes "appends P m" and "\<And>x. appends P (f x)"
  shows "appends P (io_bind m f)"
proof (rule appendsI)
  fix s
  obtain r s1 where m: "m s = (r, s1)" by (cases "m s")
  from appends_step [OF assms(1) m]
  obtain e1 where e1: "sentLog s1 = sentLog s @ e1" "list_all P e1" by auto
  show "\<exists>ext. sentLog (snd (io_bind m f s)) = sentLog s @ ext \<and> list_all P ext"
  proof (cases r)
    case (Inl e)
    with m e1 show ?thesis by (simp add: io_bind_def)
  next
    case (Inr x)
    from appendsD [OF assms(2), of x s1]
    obtain e2 where "sentLog (snd (f x s1)) = sentLog s1 @ e2" "list_all P e2" by auto
    with m e1 Inr show ?thesis by (simp add: io_bind_def)
  qed
qed

lemma appends_catch:
  assumes "appends P m" and "\<And>e. appends P (h e)"
  shows "appends P (io_catch m h)"
proof (rule appendsI)
  fix s
  obtain r s1 where m: "m s = (r, s1)" by (cases "m s")
  from appends_step [OF assms(1) m]
  obtain e1 where e1: "sentLog s1 = sentLog s @ e1" "list_all P e1" by auto
  show "\<exists>ext. sentLog (snd (io_catch m h s)) = sentLog s @ ext \<and> list_all P ext"
  proof (cases r)
    case (Inr x)
    with m e1 show ?thesis by (simp add: io_catch_def)
  next
    case (Inl e)
    from appendsD [OF assms(2), of e s1]
    obtain e2 where "sentLog (snd (h e s1)) = sentLog s1 @ e2" "list_all P e2" by auto
    with m e1 Inl show ?thesis by (simp add: io_catch_def)
  qed
qed

lemma appends_guard:
  assumes "appends P m"
  shows "appends P (\<lambda>s. if connectedDevice s = None then io_throw e s else m s)"
proof (rule appendsI)
  fix s
  show "\<exists>ext. sentLog (snd (if connectedDevice s = None then io_throw e s else m s)) =
          sentLog s @ ext \<and> list_all P ext"
    using appendsD [OF assms, of s] by (simp add: io_throw_def)
qed

lemma appends_send: "P c \<Longrightarrow> appends P (sendCommand c)"
proof (rule appendsI)
  fix s assume "P c"
  then show "\<exists>ext. sentLog (snd (sendCommand c s)) = sentLog s @ ext \<and> list_all P ext"
    by (cases s rule: nxt_cases) (simp_all add: sendCommand_brick, simp add: sendCommand_def)
qed

lemma appends_receive: "appends P receiveData"
proof (rule appendsI)
  fix s
  show "\<exists>ext. sentLog (snd (receiveData s)) = sentLog s @ ext \<and> list_all P ext"
    by (cases s rule: nxt_cases) (simp_all add: receiveData_brick, simp add: receiveData_def)
qed

lemma nameArray_bind:
  "io_bind (nameArray n name) f =
     (if n < length name then io_throw RangeError
      else f (map ucast name @ replicate (n - length name) 0))"
  by (rule ext) (simp add: nameArray_def io_bind_def io_throw_def io_return_def)

lemma appends_nameArray:
  "(length name \<le> n \<Longrightarrow> appends P (f (map ucast name @ replicate (n - length name) 0))) \<Longrightarrow>
   appends P (io_bind (nameArray n name) f)"
  by (simp add: nameArray_bind appends_throw)

lemma appends_if:
  "(b \<Longrightarrow> appends P m) \<Longrightarrow> (\<not> b \<Longrightarrow> appends P m') \<Longrightarrow> appends P (if b then m else m')"
  by simp

lemma appends_case_option:
  "(x = None \<Longrightarrow> appends P m) \<Longrightarrow> (\<And>y. x = Some y \<Longrightarrow> appends P (f y)) \<Longrightarrow>
   appends P (case x of None \<Rightarrow> m | Some y \<Rightarrow> f y)"
  by (cases x) simp_all

lemmas appends_intros =
  appends_nameArray appends_return appends_throw appends_bind appends_catch appends_send
  appends_receive appends_if appends_case_option

text \<open>The guarded operations, as functions of the state.\<close>

lemma getFirmwareVersion_eq:
  "getFirmwareVersion = (\<lambda>s. if connectedDevice s = None then io_throw NoDeviceConnected s
      else io_bind (sendCommand [0x01, 0x88]) (\<lambda>_.
           io_bind receiveData (\<lambda>data.
           io_return \<lparr>minorProtocol = at data 3, majorProtocol = at data 4,
                      minorFirmware = at data 5, majorFirmware = at data 6\<rparr>)) s)"
  by (rule ext) (simp add: getFirmwareVersion_def)

lemma stopProgram_eq:
  "stopProgram = (\<lambda>s. if connectedDevice s = None then io_throw NoDeviceConnected s
      else io_bind checkConnection (\<lambda>ok.
           if \<not> ok then io_throw NoDeviceConnected
           else io_bind (sendCommand [0x00, 0x01]) (\<lambda>_.
                io_bind receiveData (\<lambda>data.
                let status = at data 2 in
                if status \<noteq> Some 0 then io_throw (StopProgramFailed status)
                else io_return ()))) s)"
  by (rule ext) (simp add: stopProgram_def)

lemma deleteFile_eq:
  "deleteFile fileName = (\<lambda>s. if connectedDevice s = None then io_throw NoDeviceConnected s
      else io_bind checkConnection (\<lambda>ok.
           if \<not> ok then io_throw NoDeviceConnected
           else io_bind (nameArray 20 fileName) (\<lambda>fileNameArray.
                io_bind (sendCommand ([0x01, 0x85] @ fileNameArray)) (\<lambda>_.
                io_bind receiveData (\<lambda>data.
                if at data 2 \<noteq> Some 0 then io_throw (DeleteFileFailed (at data 2))
                else io_return ())))) s)"
  by (rule ext) (simp add: deleteFile_def)

lemma uploadFile_eq:
  "uploadFile file stop = (\<lambda>s. if connectedDevice s = None then io_throw NoDeviceConnected s
      else io_bind checkConnection (\<lambda>ok.
           if \<not> ok then io_throw NoDeviceConnected
           else case file of
             None \<Rightarrow> io_throw NoFileSelected
           | Some f \<Rightarrow>
               (let data = file_bytes f in
                io_bind getFirmwareVersion (\<lambda>firmwareVersion.
                if majorFirmware firmwareVersion \<noteq> Some 1 then io_throw CannotVerifyFirmware
                else
                io_bind (if stop
                         then io_catch stopProgram (\<lambda>error.
                                if statusCode error \<noteq> Some 236 then io_throw error
                                else io_return ())
                         else io_return ()) (\<lambda>_.
                io_bind (io_catch (deleteFile (file_name f)) (\<lambda>error.
                           if statusCode error \<noteq> Some 135 then io_throw error
                           else io_return ())) (\<lambda>_.
                io_bind (openLinearWrite (js_str ''Untitled1.rxe'') 244) (\<lambda>handle.
                io_bind (writeLoop handle data 0 None) (\<lambda>response.
                case response of
                  None \<Rightarrow> io_throw TypeError
                | Some r \<Rightarrow>
                    if at r 2 \<noteq> Some 0 then io_throw (UploadFailed (at r 2))
                    else sendCommand [0x01, 0x84, toUint8 handle]))))))) s)"
  by (rule ext) (simp add: uploadFile_def)

text \<open>Each operation only adds the commands it is written to send.\<close>

lemma appends_getFirmwareVersion: "P [0x01, 0x88] \<Longrightarrow> appends P getFirmwareVersion"
  unfolding getFirmwareVersion_eq
  by (intro appends_guard appends_intros)

lemma appends_checkConnection: "P [0x01, 0x88] \<Longrightarrow> appends P checkConnection"
  unfolding checkConnection_def
  by (intro appends_guard appends_intros appends_getFirmwareVersion)

lemma appends_stopProgram: "P [0x01, 0x88] \<Longrightarrow> P [0x00, 0x01] \<Longrightarrow> appends P stopProgram"
  unfolding stopProgram_eq Let_def
  by (intro appends_guard appends_intros appends_checkConnection)

lemma appends_deleteFile:
  "P [0x01, 0x88] \<Longrightarrow>
   P ([0x01, 0x85] @ map ucast fileName @ replicate (20 - length fileName) 0) \<Longrightarrow>
   appends P (deleteFile fileName)"
  unfolding deleteFile_eq
  by (intro appends_guard appends_intros appends_checkConnection)

lemma appends_openLinearWrite:
  "P ([0x01, 0x89] @ map ucast name @ replicate (20 - length name) 0 @ sizeArray sz) \<Longrightarrow>
   appends P (openLinearWrite name sz)"
  unfolding openLinearWrite_def
  by (intro appends_intros; simp)

lemma appends_write:
  "P ([if l then 0x01 else 0x81, 0x83, toUint8 h] @ c) \<Longrightarrow> appends P (write' h c l)"
  unfolding write'_def
  by (intro appends_intros)

lemma appends_writeLoop:
  "(\<And>c l. P ([if l then 0x01 else 0x81, 0x83, toUint8 h] @ c)) \<Longrightarrow>
   appends P (writeLoop h data i r)"
proof (induction h data i r rule: writeLoop.induct)
  case (1 handle data i response)
  show ?case
    apply (subst writeLoop.simps)
    apply (simp only: Let_def)
    apply (intro appends_intros appends_write 1)
      apply simp_all
    done
qed

lemma appends_uploadFile:
  assumes "P [0x01, 0x88]" and "P [0x00, 0x01]"
    and "P ([0x01, 0x85] @ map ucast (file_name f) @ replicate (20 - length (file_name f)) 0)"
    and "P ([0x01, 0x89] @ map ucast (js_str ''Untitled1.rxe'') @ replicate 7 0 @ sizeArray 244)"
    and "\<And>h c l. P ([if l then 0x01 else 0x81, 0x83, h] @ c)"
    and "\<And>h. P [0x01, 0x84, h]"
  shows "appends P (uploadFile (Some f) stop)"
  unfolding uploadFile_eq Let_def option.case
  apply (intro appends_guard appends_intros appends_checkConnection
      appends_getFirmwareVersion appends_stopProgram appends_deleteFile appends_openLinearWrite
      appends_writeLoop)
  using assms apply (simp_all add: js_str_def)
  done

text \<open>With empty content the loop body never runs, so nothing after the open is sent.\<close>

lemma appends_uploadFile_empty:
  assumes "file_bytes f = []"
    and "P [0x01, 0x88]" and "P [0x00, 0x01]"
    and "P ([0x01, 0x85] @ map ucast (file_name f) @ replicate (20 - length (file_name f)) 0)"
    and "P ([0x01, 0x89] @ map ucast (js_str ''Untitled1.rxe'') @ replicate 7 0 @ sizeArray 244)"
  shows "appends P (uploadFile (Some f) stop)"
  unfolding uploadFile_eq Let_def option.case assms(1) writeLoop_Nil io_return_bind
  apply (intro appends_guard appends_intros appends_checkConnection
      appends_getFirmwareVersion appends_stopProgram appends_deleteFile appends_openLinearWrite)
  using assms(2-) apply (simp_all add: js_str_def)
  done

subsection \<open>A successful upload, stage by stage\<close>

lemma uploadFile_Inr_stages:
  assumes "uploadFile (Some f) stop s = (Inr (), s')"
  obtains s1 fv s2 s3 s4 h s5 r s6 where
    "checkConnection s = (Inr True, s1)"
    "getFirmwareVersion s1 = (Inr fv, s2)"
    "(if stop then io_catch stopProgram (\<lambda>error.
              if statusCode error \<noteq> Some 236 then io_throw error else io_return ())
      else io_return ()) s2 = (Inr (), s3)"
    "io_catch (deleteFile (file_name f)) (\<lambda>error.
              if statusCode error \<noteq> Some 135 then io_throw error else io_return ()) s3
       = (Inr (), s4)"
    "openLinearWrite (js_str ''Untitled1.rxe'') 244 s4 = (Inr h, s5)"
    "writeLoop h (file_bytes f) 0 None s5 = (Inr (Some r), s6)"
    "sendCommand [0x01, 0x84, toUint8 h] s6 = (Inr (), s')"
  using assms
  by (auto simp: uploadFile_def Let_def io_throw_def elim!: io_bindE_Inr
      split: if_splits option.splits)

lemma deleteStage_Inr:
  assumes "io_catch (deleteFile n) (\<lambda>error.
              if statusCode error \<noteq> Some 135 then io_throw error else io_return ()) s
           = (Inr (), s')"
  shows "sentLog s' = sentLog s @
           [[0x01, 0x88], [0x01, 0x85] @ map ucast n @ replicate (20 - length n) 0]"
proof (cases s rule: nxt_cases)
  case 1
  with assms show ?thesis
    by (simp add: io_catch_def deleteFile_def io_throw_def)
next
  case (2 L so rs)
  with assms show ?thesis
    by (auto simp: io_catch_def deleteFile_def io_throw_def io_return_def io_bind_def
        checkConnection_brick nameArray_def sendCommand_brick receiveData_brick
        split: if_splits option.splits)
qed

lemma openLinearWrite_Inr:
  assumes "openLinearWrite n sz s = (Inr h, s')"
  shows "sentLog s' = sentLog s @
           [[0x01, 0x89] @ map ucast n @ replicate (20 - length n) 0 @ sizeArray sz]"
proof (cases s rule: nxt_cases)
  case 1
  with assms show ?thesis
    by (auto simp: openLinearWrite_def io_throw_def io_bind_def nameArray_def io_return_def
        sendCommand_def split: if_splits)
next
  case (2 L so rs)
  with assms show ?thesis
    by (auto simp: openLinearWrite_def io_throw_def io_return_def io_bind_def
        nameArray_def sendCommand_brick receiveData_brick
        split: if_splits option.splits)
qed

lemma uploadFile_Inr_log:
  assumes "uploadFile (Some f) stop s = (Inr (), s')"
  shows "\<exists>pre post. sentLog s' = sentLog s @ pre @
           [[0x01, 0x85] @ map ucast (file_name f) @ replicate (20 - length (file_name f)) 0,
            [0x01, 0x89] @ map ucast (js_str ''Untitled1.rxe'') @ replicate 7 0 @ [244, 0, 0, 0]]
           @ post"
proof -
  from assms obtain s1 fv s2 s3 s4 h s5 r s6 where st:
    "checkConnection s = (Inr True, s1)"
    "getFirmwareVersion s1 = (Inr fv, s2)"
    "(if stop then io_catch stopProgram (\<lambda>error.
              if statusCode error \<noteq> Some 236 then io_throw error else io_return ())
      else io_return ()) s2 = (Inr (), s3)"
    "io_catch (deleteFile (file_name f)) (\<lambda>error.
              if statusCode error \<noteq> Some 135 then io_throw error else io_return ()) s3
       = (Inr (), s4)"
    "openLinearWrite (js_str ''Untitled1.rxe'') 244 s4 = (Inr h, s5)"
    "writeLoop h (file_bytes f) 0 None s5 = (Inr (Some r), s6)"
    "sendCommand [0x01, 0x84, toUint8 h] s6 = (Inr (), s')"
    by (rule uploadFile_Inr_stages)
  obtain e1 where e1: "sentLog s1 = sentLog s @ e1"
    using appends_step [OF appends_checkConnection st(1), of "\<lambda>_. True"] by auto
  obtain e2 where e2: "sentLog s2 = sentLog s1 @ e2"
    using appends_step [OF appends_getFirmwareVersion st(2), of "\<lambda>_. True"] by auto
  have "appends (\<lambda>_. True) (if stop then io_catch stopProgram (\<lambda>error.
              if statusCode error \<noteq> Some 236 then io_throw error else io_return ())
      else io_return ())"
    by (intro appends_intros appends_stopProgram) simp_all
  from appends_step [OF this st(3)]
  obtain e3 where e3: "sentLog s3 = sentLog s2 @ e3" by auto
  note e4 = deleteStage_Inr [OF st(4)]
  note e5 = openLinearWrite_Inr [OF st(5)]
  obtain e6 where e6: "sentLog s6 = sentLog s5 @ e6"
    using appends_step [OF appends_writeLoop st(6), of "\<lambda>_. True"] by auto
  obtain e7 where e7: "sentLog s' = sentLog s6 @ e7"
    using appends_step [OF appends_send st(7), of "\<lambda>_. True"] by auto
  have len: "20 - length (js_str ''Untitled1.rxe'') = 7" by (simp add: js_str_def)
  have "sentLog s' = sentLog s @ (e1 @ e2 @ e3 @ [[0x01, 0x88]]) @
           [[0x01, 0x85] @ map ucast (file_name f) @ replicate (20 - length (file_name f)) 0,
            [0x01, 0x89] @ map ucast (js_str ''Untitled1.rxe'') @ replicate 7 0 @ [244, 0, 0, 0]]
           @ (e6 @ e7)"
    by (simp add: e1 e2 e3 e4 e5 e6 e7 sizeArray_244 len)
  then show ?thesis by blast
qed

section \<open>File transfer\<close>

text \<open>
  C9.  Whatever the file, the flag and the state, \<open>uploadFile\<close> only adds to the command
  log, and among the commands it adds every open-linear-write command (opcode \<^verbatim>\<open>0x89\<close>)
  is the one for the name \<^verbatim>\<open>Untitled1.rxe\<close> padded to 20 bytes and the size 244
  (\<^verbatim>\<open>F4 00 00 00\<close>), and every delete command (opcode \<^verbatim>\<open>0x85\<close>) carries the name of
  the file handed in, padded to 20 bytes.  When the upload succeeds, both were sent, the
  delete command immediately before the open command.
\<close>

theorem uploadFile_target_fixed:
  "sentLog (snd (uploadFile (Some f) stop s)) =
     sentLog s @ newCommands s (snd (uploadFile (Some f) stop s)) \<and>
   (\<forall>c \<in> set (newCommands s (snd (uploadFile (Some f) stop s))).
      (at c 1 = Some 0x89 \<longrightarrow>
         c = [0x01, 0x89] @ map ucast (js_str ''Untitled1.rxe'') @ replicate 7 0 @ [244, 0, 0, 0]) \<and>
      (at c 1 = Some 0x85 \<longrightarrow>
         c = [0x01, 0x85] @ map ucast (file_name f) @ replicate (20 - length (file_name f)) 0)) \<and>
   (fst (uploadFile (Some f) stop s) = Inr () \<longrightarrow>
      (\<exists>pre post. newCommands s (snd (uploadFile (Some f) stop s)) =
         pre @ [[0x01, 0x85] @ map ucast (file_name f) @ replicate (20 - length (file_name f)) 0,
                [0x01, 0x89] @ map ucast (js_str ''Untitled1.rxe'') @ replicate 7 0 @ [244, 0, 0, 0]]
             @ post))"
proof -
  let ?P = "\<lambda>c. (at c 1 = Some 0x89 \<longrightarrow>
         c = [0x01, 0x89] @ map ucast (js_str ''Untitled1.rxe'') @ replicate 7 0 @ [244, 0, 0, 0]) \<and>
      (at c 1 = Some 0x85 \<longrightarrow>
         c = [0x01, 0x85] @ map ucast (file_name f) @ replicate (20 - length (file_name f)) 0)"
  obtain r s' where run: "uploadFile (Some f) stop s = (r, s')"
    by (cases "uploadFile (Some f) stop s")
  have "appends ?P (uploadFile (Some f) stop)"
    by (rule appends_uploadFile) (simp_all add: sizeArray_244)
  from appends_step [OF this run]
  obtain ext where ext: "sentLog s' = sentLog s @ ext" "list_all ?P ext" by blast
  then have new: "newCommands s s' = ext" by (simp add: newCommands_def)
  have "r = Inr () \<Longrightarrow> \<exists>pre post. ext =
         pre @ [[0x01, 0x85] @ map ucast (file_name f) @ replicate (20 - length (file_name f)) 0,
                [0x01, 0x89] @ map ucast (js_str ''Untitled1.rxe'') @ replicate 7 0 @ [244, 0, 0, 0]]
             @ post"
    using uploadFile_Inr_log [of f stop s s'] run ext(1) by auto
  with ext new run show ?thesis
    by (simp add: list_all_iff)
qed

theorem uploadFile_target_fixed_witness:
  "fst (uploadFile (Some mindFile) True uploadBrick) = Inr () \<and>
   [0x01, 0x89, 0x55, 0x6e, 0x74, 0x69, 0x74, 0x6c, 0x65, 0x64, 0x31, 0x2e, 0x72, 0x78,
    0x65, 0, 0, 0, 0, 0, 0, 0, 244, 0, 0, 0]
     \<in> set (newCommands uploadBrick (snd (uploadFile (Some mindFile) True uploadBrick))) \<and>
   (\<exists>pre post. newCommands uploadBrick (snd (uploadFile (Some mindFile) True uploadBrick)) =
      pre @ [[0x01, 0x85] @ map ucast (file_name mindFile) @
               replicate (20 - length (file_name mindFile)) 0,
             [0x01, 0x89] @ map ucast (js_str ''Untitled1.rxe'') @ replicate 7 0 @ [244, 0, 0, 0]]
          @ post)"
proof -
  have run: "fst (uploadFile (Some mindFile) True uploadBrick) = Inr ()"
    by (simp add: uploadFile_mindFile)
  have mem: "[0x01, 0x89, 0x55, 0x6e, 0x74, 0x69, 0x74, 0x6c, 0x65, 0x64, 0x31, 0x2e, 0x72, 0x78,
    0x65, 0, 0, 0, 0, 0, 0, 0, 244, 0, 0, 0]
     \<in> set (newCommands uploadBrick (snd (uploadFile (Some mindFile) True uploadBrick)))"
    by (simp add: uploadFile_mindFile newCommands_def) (simp add: uploadBrick_def)
  from uploadFile_target_fixed [of mindFile True uploadBrick] run mem
  show ?thesis by blast
qed

text \<open>
  C10.  The file is empty and its name fits the 20-byte field.  On a transport that
  answers every call --- firmware major version 1, stop-program status 0 or 236 when
  the program is to be stopped, delete status 0 or 135, open status 0 --- \<open>uploadFile\<close>
  sends the probes, the optional stop, the delete and the open command, and then fails
  with the type error raised by \<^verbatim>\<open>response[2]\<close> on the undefined \<^verbatim>\<open>response\<close>.
  From any state at all, an upload of an empty file never succeeds and sends neither a
  write command (opcode \<^verbatim>\<open>0x83\<close>) nor a close command (opcode \<^verbatim>\<open>0x84\<close>).
\<close>

theorem uploadFile_empty_content:
  assumes "file_bytes f = []" and "length (file_name f) \<le> 20"
    and "at fw 6 = Some 1"
    and "at st 2 = Some 0 \<or> at st 2 = Some 236"
    and "at del 2 = Some 0 \<or> at del 2 = Some 135"
    and "at opn 2 = Some 0"
  shows
    "uploadFile (Some f) stop
       (brick L (True ## True ## (replicate (if stop then 2 else 0) True @-
                 True ## True ## True ## so))
          (Some p1 ## Some fw ## ((if stop then [Some p2, Some st] else []) @-
           Some p3 ## Some del ## Some opn ## rs))) =
     (Inl TypeError,
      brick (L @ [[0x01, 0x88], [0x01, 0x88]] @
             (if stop then [[0x01, 0x88], [0x00, 0x01]] else []) @
             [[0x01, 0x88],
              [0x01, 0x85] @ map ucast (file_name f) @ replicate (20 - length (file_name f)) 0,
              [0x01, 0x89] @ map ucast (js_str ''Untitled1.rxe'') @ replicate 7 0 @ [244, 0, 0, 0]])
        so rs) \<and>
     fst (uploadFile (Some f) stop s) \<noteq> Inr () \<and>
     (\<forall>c \<in> set (newCommands s (snd (uploadFile (Some f) stop s))).
        at c 1 \<noteq> Some 0x83 \<and> at c 1 \<noteq> Some 0x84)"
proof (intro conjI)
  have len: "replicate (20 - length (js_str ''Untitled1.rxe'')) (0::byte) = replicate 7 0"
    "length (js_str ''Untitled1.rxe'') \<le> 20" by (simp_all add: js_str_def)
  show "uploadFile (Some f) stop
       (brick L (True ## True ## (replicate (if stop then 2 else 0) True @-
                 True ## True ## True ## so))
          (Some p1 ## Some fw ## ((if stop then [Some p2, Some st] else []) @-
           Some p3 ## Some del ## Some opn ## rs))) =
     (Inl TypeError,
      brick (L @ [[0x01, 0x88], [0x01, 0x88]] @
             (if stop then [[0x01, 0x88], [0x00, 0x01]] else []) @
             [[0x01, 0x88],
              [0x01, 0x85] @ map ucast (file_name f) @ replicate (20 - length (file_name f)) 0,
              [0x01, 0x89] @ map ucast (js_str ''Untitled1.rxe'') @ replicate 7 0 @ [244, 0, 0, 0]])
        so rs)"
    using assms
    by (cases stop)
       (auto simp: uploadFile_def io_bind_def io_catch_def io_throw_def io_return_def
          checkConnection_brick getFirmwareVersion_brick stopProgram_brick deleteFile_brick
          openLinearWrite_brick writeLoop_Nil sizeArray_244 len numeral_2_eq_2)
next
  show "fst (uploadFile (Some f) stop s) \<noteq> Inr ()"
  proof
    assume "fst (uploadFile (Some f) stop s) = Inr ()"
    then have "uploadFile (Some f) stop s = (Inr (), snd (uploadFile (Some f) stop s))"
      by (metis prod.collapse)
    then obtain h r s5 s6 where "writeLoop h (file_bytes f) 0 None s5 = (Inr (Some r), s6)"
      by (rule uploadFile_Inr_stages)
    with assms(1) show False by (simp add: writeLoop_Nil io_return_def)
  qed
next
  let ?P = "\<lambda>c. at c 1 \<noteq> Some (0x83::byte) \<and> at c 1 \<noteq> Some 0x84"
  have "appends ?P (uploadFile (Some f) stop)"
    by (rule appends_uploadFile_empty [OF assms(1)]) simp_all
  from appendsD [OF this, of s]
  obtain ext where ext: "sentLog (snd (uploadFile (Some f) stop s)) = sentLog s @ ext"
    "list_all ?P ext" by blast
  then have "newCommands s (snd (uploadFile (Some f) stop s)) = ext"
    by (simp add: newCommands_def)
  with ext(2) show "\<forall>c \<in> set (newCommands s (snd (uploadFile (Some f) stop s))).
        at c 1 \<noteq> Some 0x83 \<and> at c 1 \<noteq> Some 0x84"
    by (simp add: list_all_iff)
qed

theorem uploadFile_empty_content_witness:
  "uploadFile (Some emptyFile) True uploadBrick =
     (Inl TypeError,
      brick [[0x01, 0x88], [0x01, 0x88], [0x01, 0x88], [0x00, 0x01], [0x01, 0x88],
             [0x01, 0x85] @ map ucast (js_str ''empty.rxe'') @ replicate 11 0,
             [0x01, 0x89] @ map ucast (js_str ''Untitled1.rxe'') @ replicate 7 0 @ [244, 0, 0, 0]]
        (True ## True ## sconst False) (Some (statusReply 0x83 0 3) ## sconst None))"
proof -
  have f: "file_bytes emptyFile = []" "length (file_name emptyFile) \<le> 20"
    "20 - length (js_str ''empty.rxe'') = 11" "file_name emptyFile = js_str ''empty.rxe''"
    by (simp_all add: emptyFile_def js_str_def)
  have st: "at (statusReply 0x01 236 0) 2 = Some 0 \<or> at (statusReply 0x01 236 0) 2 = Some 236"
    and del: "at (statusReply 0x85 135 0) 2 = Some 0 \<or> at (statusReply 0x85 135 0) 2 = Some 135"
    and opn: "at (statusReply 0x89 0 3) 2 = Some 0"
    by simp_all
  have r: "replicate 2 True = [True, True]"
    by (simp add: numeral_2_eq_2)
  note run = uploadFile_empty_content
    [where f = emptyFile and fw = firmwareReply and st = "statusReply 0x01 236 0"
       and del = "statusReply 0x85 135 0" and opn = "statusReply 0x89 0 3" and stop = True
       and L = "[]" and so = "True ## True ## sconst False"
       and ?p1.0 = firmwareReply and ?p2.0 = firmwareReply and ?p3.0 = firmwareReply
       and rs = "Some (statusReply 0x83 0 3) ## sconst None" and s = unconnected,
     OF f(1) f(2) firmwareReply_major st del opn, THEN conjunct1]
  show ?thesis
    unfolding uploadBrick_def using run by (simp add: r f(3,4))
qed

text \<open>
  C6, at a failing input.  \<open>mindFile\<close> is named \<^verbatim>\<open>a.rxe\<close> and holds the four bytes
  \<^verbatim>\<open>4D 69 6E 64\<close>: fewer than 13 bytes, so its first 13 bytes are not the magic sequence.
  \<open>uploadProgram\<close> compares only the bytes that are there, accepts the file, and the whole
  upload runs: nine commands are sent and the call returns normally.
\<close>

theorem uploadProgram_short_header_accepted:
  "length (file_bytes mindFile) < 13 \<and>
   take 13 (file_bytes mindFile) \<noteq> expectedHeader \<and>
   uploadProgram (Some mindFile) uploadBrick =
     (Inr (),
      brick [[0x01, 0x88], [0x01, 0x88], [0x01, 0x88], [0x00, 0x01], [0x01, 0x88],
             [0x01, 0x85, 0x61, 0x2e, 0x72, 0x78, 0x65,
              0, 0, 0, 0, 0, 0, 0, 0, 0, 0, 0, 0, 0, 0, 0],
             [0x01, 0x89, 0x55, 0x6e, 0x74, 0x69, 0x74, 0x6c, 0x65, 0x64, 0x31, 0x2e, 0x72, 0x78,
              0x65, 0, 0, 0, 0, 0, 0, 0, 244, 0, 0, 0],
             [0x01, 0x83, 3, 0x4d, 0x69, 0x6e, 0x64],
             [0x01, 0x84, 3]]
        (sconst False) (sconst None))"
proof -
  have "endsWithRxe (file_name mindFile)"
    "headerMatches (slice_array (file_bytes mindFile) 0 13)"
    "length expectedHeader = 13"
    unfolding mindFile_def by code_simp+
  moreover have "length (file_bytes mindFile) < 13"
    "take 13 (file_bytes mindFile) \<noteq> expectedHeader"
    by (simp_all add: mindFile_def expectedHeader_def)
  ultimately show ?thesis
    by (simp add: uploadProgram_def io_catch_def uploadFile_mindFile)
qed

text \<open>
  C7.  The transport answers every call and reports firmware major version 1.

  At the stop-program call: a response with status 236 leaves the upload exactly as a
  response with status 0 does; with any other status than 0 and 236 the upload ends there
  with the stop-program error, which carries that status, and nothing more is sent.

  At the delete call (after a stop that was skipped or answered with 0 or 236, for a
  name that fits the field): a response with status 135 leaves the upload exactly as a
  response with status 0 does; with any other status than 0 and 135 the upload ends there
  with the delete error, which carries that status.
\<close>

theorem uploadFile_benign_status_absorbed:
  assumes fw: "at fw 6 = Some 1"
    and stA: "at stA 2 = Some 236" and st0: "at st0 2 = Some 0"
    and stF: "at stF 2 \<noteq> Some 0" "at stF 2 \<noteq> Some 236"
    and name: "length (file_name f) \<le> 20"
    and st: "at st 2 = Some 0 \<or> at st 2 = Some 236"
    and delA: "at delA 2 = Some 135" and del0: "at del0 2 = Some 0"
    and delF: "at delF 2 \<noteq> Some 0" "at delF 2 \<noteq> Some 135"
  shows
    "uploadFile (Some f) True
       (brick L (True ## True ## True ## True ## so)
          (Some p1 ## Some fw ## Some p2 ## Some stA ## rs)) =
     uploadFile (Some f) True
       (brick L (True ## True ## True ## True ## so)
          (Some p1 ## Some fw ## Some p2 ## Some st0 ## rs)) \<and>
     uploadFile (Some f) True
       (brick L (True ## True ## True ## True ## so)
          (Some p1 ## Some fw ## Some p2 ## Some stF ## rs)) =
       (Inl (StopProgramFailed (at stF 2)),
        brick (L @ [[0x01, 0x88], [0x01, 0x88], [0x01, 0x88], [0x00, 0x01]]) so rs) \<and>
     statusCode (StopProgramFailed (at stF 2)) = at stF 2 \<and>
     uploadFile (Some f) stop
       (brick L (True ## True ## (replicate (if stop then 2 else 0) True @- True ## True ## so))
          (Some p1 ## Some fw ## ((if stop then [Some p2, Some st] else []) @-
           Some p3 ## Some delA ## rs))) =
     uploadFile (Some f) stop
       (brick L (True ## True ## (replicate (if stop then 2 else 0) True @- True ## True ## so))
          (Some p1 ## Some fw ## ((if stop then [Some p2, Some st] else []) @-
           Some p3 ## Some del0 ## rs))) \<and>
     uploadFile (Some f) stop
       (brick L (True ## True ## (replicate (if stop then 2 else 0) True @- True ## True ## so))
          (Some p1 ## Some fw ## ((if stop then [Some p2, Some st] else []) @-
           Some p3 ## Some delF ## rs))) =
       (Inl (DeleteFileFailed (at delF 2)),
        brick (L @ [[0x01, 0x88], [0x01, 0x88]] @
               (if stop then [[0x01, 0x88], [0x00, 0x01]] else []) @
               [[0x01, 0x88],
                [0x01, 0x85] @ map ucast (file_name f) @ replicate (20 - length (file_name f)) 0])
          so rs) \<and>
     statusCode (DeleteFileFailed (at delF 2)) = at delF 2"
proof (intro conjI)
  show "uploadFile (Some f) True
       (brick L (True ## True ## True ## True ## so)
          (Some p1 ## Some fw ## Some p2 ## Some stA ## rs)) =
     uploadFile (Some f) True
       (brick L (True ## True ## True ## True ## so)
          (Some p1 ## Some fw ## Some p2 ## Some st0 ## rs))"
    using fw stA st0
    by (simp add: uploadFile_def io_bind_def io_catch_def io_throw_def io_return_def
        checkConnection_brick getFirmwareVersion_brick stopProgram_brick)
next
  show "uploadFile (Some f) True
       (brick L (True ## True ## True ## True ## so)
          (Some p1 ## Some fw ## Some p2 ## Some stF ## rs)) =
       (Inl (StopProgramFailed (at stF 2)),
        brick (L @ [[0x01, 0x88], [0x01, 0x88], [0x01, 0x88], [0x00, 0x01]]) so rs)"
    using fw stF
    by (simp add: uploadFile_def io_bind_def io_catch_def io_throw_def io_return_def
        checkConnection_brick getFirmwareVersion_brick stopProgram_brick)
next
  show "uploadFile (Some f) stop
       (brick L (True ## True ## (replicate (if stop then 2 else 0) True @- True ## True ## so))
          (Some p1 ## Some fw ## ((if stop then [Some p2, Some st] else []) @-
           Some p3 ## Some delA ## rs))) =
     uploadFile (Some f) stop
       (brick L (True ## True ## (replicate (if stop then 2 else 0) True @- True ## True ## so))
          (Some p1 ## Some fw ## ((if stop then [Some p2, Some st] else []) @-
           Some p3 ## Some del0 ## rs)))"
    using fw st name delA del0
    by (cases stop)
       (auto simp: uploadFile_def io_bind_def io_catch_def io_throw_def io_return_def
        checkConnection_brick getFirmwareVersion_brick stopProgram_brick deleteFile_brick
        numeral_2_eq_2)
next
  show "uploadFile (Some f) stop
       (brick L (True ## True ## (replicate (if stop then 2 else 0) True @- True ## True ## so))
          (Some p1 ## Some fw ## ((if stop then [Some p2, Some st] else []) @-
           Some p3 ## Some delF ## rs))) =
       (Inl (DeleteFileFailed (at delF 2)),
        brick (L @ [[0x01, 0x88], [0x01, 0x88]] @
               (if stop then [[0x01, 0x88], [0x00, 0x01]] else []) @
               [[0x01, 0x88],
                [0x01, 0x85] @ map ucast (file_name f) @ replicate (20 - length (file_name f)) 0])
          so rs)"
    using fw st name delF
    by (cases stop)
       (auto simp: uploadFile_def io_bind_def io_catch_def io_throw_def io_return_def
        checkConnection_brick getFirmwareVersion_brick stopProgram_brick deleteFile_brick
        numeral_2_eq_2)
qed simp_all

theorem uploadFile_benign_status_absorbed_witness:
  "uploadFile (Some mindFile) True
     (brick [] (True ## True ## True ## True ## sconst False)
        (Some firmwareReply ## Some firmwareReply ## Some firmwareReply ##
         Some (statusReply 0x01 0x20 0) ## sconst None)) =
     (Inl (StopProgramFailed (Some 0x20)),
      brick [[0x01, 0x88], [0x01, 0x88], [0x01, 0x88], [0x00, 0x01]] (sconst False) (sconst None)) \<and>
   uploadFile (Some mindFile) True
     (brick [] (True ## True ## True ## True ## sconst False)
        (Some firmwareReply ## Some firmwareReply ## Some firmwareReply ##
         Some (statusReply 0x01 236 0) ## sconst None)) =
   uploadFile (Some mindFile) True
     (brick [] (True ## True ## True ## True ## sconst False)
        (Some firmwareReply ## Some firmwareReply ## Some firmwareReply ##
         Some (statusReply 0x01 0 0) ## sconst None)) \<and>
   uploadFile (Some mindFile) True
     (brick [] (True ## True ## True ## True ## True ## True ## sconst False)
        (Some firmwareReply ## Some firmwareReply ## Some firmwareReply ##
         Some (statusReply 0x01 236 0) ## Some firmwareReply ##
         Some (statusReply 0x85 0x8F 0) ## sconst None)) =
     (Inl (DeleteFileFailed (Some 0x8F)),
      brick [[0x01, 0x88], [0x01, 0x88], [0x01, 0x88], [0x00, 0x01], [0x01, 0x88],
             [0x01, 0x85] @ map ucast (js_str ''a.rxe'') @ replicate 15 0]
        (sconst False) (sconst None))"
proof -
  have f: "length (file_name mindFile) \<le> 20" "20 - length (js_str ''a.rxe'') = 15"
    "file_name mindFile = js_str ''a.rxe''"
    by (simp_all add: mindFile_def js_str_def)
  have st: "at (statusReply 0x01 236 0) 2 = Some 0 \<or> at (statusReply 0x01 236 0) 2 = Some 236"
    by simp
  have r: "replicate 2 True = [True, True]"
    by (simp add: numeral_2_eq_2)
  have "at (statusReply 0x01 236 0) 2 = Some 236" "at (statusReply 0x01 0 0) 2 = Some 0"
    "at (statusReply 0x01 0x20 0) 2 \<noteq> Some 0" "at (statusReply 0x01 0x20 0) 2 \<noteq> Some 236"
    "at (statusReply 0x85 135 0) 2 = Some 135" "at (statusReply 0x85 0 0) 2 = Some 0"
    "at (statusReply 0x85 0x8F 0) 2 \<noteq> Some 0" "at (statusReply 0x85 0x8F 0) 2 \<noteq> Some 135"
    by simp_all
  note run = uploadFile_benign_status_absorbed
    [where fw = firmwareReply and stA = "statusReply 0x01 236 0"
       and ?st0.0 = "statusReply 0x01 0 0" and stF = "statusReply 0x01 0x20 0"
       and f = mindFile and st = "statusReply 0x01 236 0"
       and delA = "statusReply 0x85 135 0" and ?del0.0 = "statusReply 0x85 0 0"
       and delF = "statusReply 0x85 0x8F 0" and stop = True and L = "[]"
       and so = "sconst False" and rs = "sconst None"
       and ?p1.0 = firmwareReply and ?p2.0 = firmwareReply and ?p3.0 = firmwareReply,
     OF firmwareReply_major this(1,2,3,4) f(1) st this(5,6,7,8)]
  show ?thesis
    using run by (simp add: r f(2,3))
qed

subsection \<open>Chunking\<close>

lemma chunks_step:
  "i < length data \<Longrightarrow>
   chunks data i = (slice_array data i (i + 61), length data \<le> i + 61) # chunks data (i + 61)"
  by (subst chunks.simps) (simp add: add.commute)

lemma chunks_done: "length data \<le> i \<Longrightarrow> chunks data i = []"
  by (subst chunks.simps) simp

lemma chunks_empty_iff: "chunks data i = [] \<longleftrightarrow> length data \<le> i"
  by (subst chunks.simps) auto

lemma chunks_concat: "concat (map fst (chunks data i)) = drop i data"
proof (induction data i rule: chunks.induct)
  case (1 data i)
  show ?case
  proof (cases "i < length data")
    case True
    have "take 61 (drop i data) @ drop (i + 61) data = drop i data"
      by (metis add.commute append_take_drop_id drop_drop)
    moreover have e: "i + packetChunkSize - 3 = i + 61" by simp
    ultimately show ?thesis
      using "1.IH" [OF True, unfolded e] True by (simp add: chunks_step slice_array_def)
  next
    case False
    then show ?thesis by (simp add: chunks_done)
  qed
qed

lemma chunks_last_flag:
  "k < length (chunks data i) \<Longrightarrow> snd (chunks data i ! k) = (Suc k = length (chunks data i))"
proof (induction data i arbitrary: k rule: chunks.induct)
  case (1 data i)
  show ?case
  proof (cases "i < length data")
    case True
    note eq = chunks_step [OF True]
    have e: "i + packetChunkSize - 3 = i + 61" by simp
    show ?thesis
    proof (cases k)
      case 0
      then show ?thesis using chunks_empty_iff [of data "i + 61"] by (simp add: eq)
    next
      case (Suc k')
      with "1.prems" have "k' < length (chunks data (i + 61))" by (simp add: eq)
      with "1.IH" [OF True, of k', unfolded e] Suc show ?thesis by (simp add: eq)
    qed
  next
    case False
    with "1.prems" show ?thesis by (simp add: chunks_done)
  qed
qed

lemma chunks_size:
  "c \<in> set (chunks data i) \<Longrightarrow> fst c \<noteq> [] \<and> length (fst c) \<le> 61"
proof (induction data i rule: chunks.induct)
  case (1 data i)
  show ?case
  proof (cases "i < length data")
    case True
    have e: "i + packetChunkSize - 3 = i + 61" by simp
    from "1.prems" "1.IH" [OF True, unfolded e] True show ?thesis
      by (auto simp: chunks_step slice_array_def)
  next
    case False
    with "1.prems" show ?thesis by (simp add: chunks_done)
  qed
qed

lemma write_Inr:
  assumes "write' h c l s = (Inr r, s')"
  shows "sentLog s' = sentLog s @ [[if l then 0x01 else 0x81, 0x83, toUint8 h] @ c]"
proof (cases s rule: nxt_cases)
  case 1
  with assms show ?thesis
    by (auto simp: write'_def io_throw_def io_bind_def sendCommand_def split: if_splits)
next
  case (2 L so rs)
  with assms show ?thesis
    by (auto simp: write'_def io_throw_def io_return_def io_bind_def
        sendCommand_brick receiveData_brick split: if_splits option.splits)
qed

lemma writeLoop_step:
  "i < length data \<Longrightarrow>
   writeLoop h data i r =
     io_bind (write' h (slice_array data i (i + 61)) (length data \<le> i + 61))
       (\<lambda>response'. writeLoop h data (i + 61) response')"
  by (subst writeLoop.simps) (simp add: Let_def add.commute)

lemma writeLoop_done: "length data \<le> i \<Longrightarrow> writeLoop h data i r = io_return r"
  by (subst writeLoop.simps) simp

lemma writeLoop_Inr_log:
  "writeLoop h data i r s = (Inr r', s') \<Longrightarrow>
   sentLog s' = sentLog s @
     map (\<lambda>(c, l). [if l then 0x01 else 0x81, 0x83, toUint8 h] @ c) (chunks data i)"
proof (induction h data i r arbitrary: s rule: writeLoop.induct)
  case (1 handle data i response)
  show ?case
  proof (cases "i < length data")
    case True
    from "1.prems" obtain x s1 where
      w: "write' handle (slice_array data i (i + 61)) (length data \<le> i + 61) s = (Inr x, s1)"
      and l: "writeLoop handle data (i + 61) x s1 = (Inr r', s')"
      unfolding writeLoop_step [OF True] by (rule io_bindE_Inr)
    have e: "i + packetChunkSize - 3 = i + 61" by simp
    from "1.IH" [OF True refl refl, unfolded e, OF l] have "sentLog s' = sentLog s1 @
       map (\<lambda>(c, l). [if l then 0x01 else 0x81, 0x83, toUint8 handle] @ c)
         (chunks data (i + 61))"
      .
    with write_Inr [OF w] show ?thesis by (simp add: chunks_step [OF True])
  next
    case False
    with "1.prems" show ?thesis
      by (simp add: chunks_done writeLoop_done io_return_def)
  qed
qed

text \<open>
  C5.  The chunks cut by the loop of \<open>uploadFile\<close>, concatenated in order, are the content;
  every chunk is non-empty and at most 61 bytes long; the \<^verbatim>\<open>isLastChunk\<close> flag is set on
  the last chunk and on no other.  Whenever the loop runs to its end, the commands it has
  sent are the write commands for these chunks in order, with class byte \<^verbatim>\<open>01\<close>
  (response required) where the flag is set and \<^verbatim>\<open>81\<close> where it is not.
\<close>

theorem chunks_roundtrip:
  "concat (map fst (chunks data 0)) = data \<and>
   (\<forall>c \<in> set (chunks data 0). fst c \<noteq> [] \<and> length (fst c) \<le> 61) \<and>
   (\<forall>k < length (chunks data 0).
      snd (chunks data 0 ! k) = (Suc k = length (chunks data 0))) \<and>
   (writeLoop h data 0 None s = (Inr r, s') \<longrightarrow>
      sentLog s' = sentLog s @
        map (\<lambda>(c, l). [if l then 0x01 else 0x81, 0x83, toUint8 h] @ c) (chunks data 0))"
  using chunks_concat [of data 0] chunks_size [of _ data 0] chunks_last_flag [of _ data 0]
    writeLoop_Inr_log [of h data 0 None s r s']
  by auto

text \<open>The example of 63 bytes.\<close>

lemma data63_chunks:
  "chunks data63 0 = [(replicate 61 0xAA, False), ([0x01, 0x02], True)]"
  by code_simp

lemma data63_slices:
  "length data63 = 63"
  "slice_array data63 0 61 = replicate 61 0xAA"
  "slice_array data63 61 122 = [0x01, 0x02]"
  by code_simp+

lemma writeLoop_data63:
  "writeLoop (Some 3) data63 0 None
     (brick [] (True ## True ## sconst False) (Some (statusReply 0x83 0 3) ## sconst None)) =
   (Inr (Some (statusReply 0x83 0 3)),
    brick [[0x81, 0x83, 3] @ replicate 61 0xAA, [0x01, 0x83, 3, 0x01, 0x02]]
      (sconst False) (sconst None))"
  by (simp add: writeLoop_step writeLoop_done data63_slices io_bind_def io_return_def
      write_response_brick write_no_response_brick toUint8_def)

theorem chunks_roundtrip_witness:
  "writeLoop (Some 3) data63 0 None
     (brick [] (True ## True ## sconst False) (Some (statusReply 0x83 0 3) ## sconst None)) =
   (Inr (Some (statusReply 0x83 0 3)),
    brick [[0x81, 0x83, 3] @ replicate 61 0xAA, [0x01, 0x83, 3, 0x01, 0x02]]
      (sconst False) (sconst None)) \<and>
   chunks data63 0 = [(replicate 61 0xAA, False), ([0x01, 0x02], True)] \<and>
   concat (map fst (chunks data63 0)) = data63 \<and>
   \<not> snd (chunks data63 0 ! 0) \<and> snd (chunks data63 0 ! 1) \<and>
   sentLog (brick [[0x81, 0x83, 3] @ replicate 61 0xAA, [0x01, 0x83, 3, 0x01, 0x02]]
      (sconst False) (sconst None)) =
     map (\<lambda>(c, l). [if l then 0x01 else 0x81, 0x83, toUint8 (Some 3)] @ c) (chunks data63 0)"
  using chunks_roundtrip [of data63 "Some 3"
      "brick [] (True ## True ## sconst False) (Some (statusReply 0x83 0 3) ## sconst None)"
      "Some (statusReply 0x83 0 3)"
      "brick [[0x81, 0x83, 3] @ replicate 61 0xAA, [0x01, 0x83, 3, 0x01, 0x02]]
         (sconst False) (sconst None)"]
    writeLoop_data63 data63_chunks
  by simp

end
